theory Spec2Isabelle
  imports Main
begin

section \<open>The user context of the IAM client\<close>

text \<open>
  A shallow embedding of \<^verbatim>\<open>src/lib/contexts/user-context.tsx\<close>: the provider's two
  pieces of React state (\<^verbatim>\<open>user\<close>, \<^verbatim>\<open>isLoading\<close>), the cookie jar behind
  \<^verbatim>\<open>getCookie\<close>/\<^verbatim>\<open>setCookie\<close>, and the four operations the provider exposes together
  with the helper \<^verbatim>\<open>fetchUser\<close> and the mount effect \<^verbatim>\<open>initializeUser\<close>. The hook
  \<^verbatim>\<open>useUser\<close> and the page component only call these operations and read the state;
  they are not part of the model.

  Every \<^verbatim>\<open>async\<close> function is modelled as one run from its first statement to the
  settlement of its promise, with no other operation interleaved. A promise settles as
  \<open>Fulfilled v\<close> or as \<open>Rejected ex\<close>; a \<^verbatim>\<open>try\<close>/\<^verbatim>\<open>catch\<close> is a case distinction on that
  value. Each effect (a state setter, a cookie write, a \<^verbatim>\<open>fetch\<close>, a router call, a
  \<^verbatim>\<open>console.error\<close>) changes the world and is appended to the world's event log in
  program order, so that the states an observer can see while an operation runs are
  the states after each prefix of the events it appended.
\<close>

subsection \<open>Data\<close>

text \<open>The interface \<^verbatim>\<open>User\<close> (the fields \<^verbatim>\<open>$id\<close>, \<^verbatim>\<open>$createdAt\<close>, \<^verbatim>\<open>$updatedAt\<close> lose
  their dollar sign).\<close>

record User =
  dollar_id :: string
  dollar_createdAt :: string
  dollar_updatedAt :: string
  email :: string
  name :: "string option"
  emailVerification :: bool

text \<open>What a \<^verbatim>\<open>throw\<close> or a rejected promise carries.\<close>

datatype exn =
    Error string
  | TypeError string
  | SyntaxError string

datatype 'a settled =
    Fulfilled 'a
  | Rejected exn

text \<open>
  The URL and the second argument of \<^verbatim>\<open>fetch\<close>. The field \<^verbatim>\<open>method\<close> is called
  \<open>http_method\<close> here; a call without it is a GET and has no body.
\<close>

record http_request =
  url :: string
  http_method :: string
  headers :: "(string \<times> string) list"
  body :: "string option"

text \<open>
  The value of \<^verbatim>\<open>data.user\<close> for a parsed body \<^verbatim>\<open>data\<close>: the property is missing
  (\<^verbatim>\<open>undefined\<close>), it is \<^verbatim>\<open>null\<close> (or another falsy value), or it is a user object,
  which is truthy.
\<close>

datatype user_field =
    Missing
  | NullValue
  | UserValue User

text \<open>
  A parsed response body \<^verbatim>\<open>data\<close>: the JSON value \<^verbatim>\<open>null\<close> (reading \<^verbatim>\<open>data.user\<close>
  then throws a TypeError), or a value whose \<^verbatim>\<open>user\<close> property can be read.
\<close>

datatype json_data =
    JsonNull
  | JsonObject user_field

text \<open>A response: its status and its body, \<open>None\<close> when the body is not JSON.\<close>

record response =
  status :: nat
  payload :: "json_data option"

definition ok :: "response \<Rightarrow> bool" where
  "ok res \<longleftrightarrow> 200 \<le> status res \<and> status res \<le> 299"

text \<open>\<^verbatim>\<open>res.json()\<close> rejects with a SyntaxError when the body does not parse.\<close>

definition json :: "response \<Rightarrow> json_data settled" where
  "json res =
     (case payload res of
        None \<Rightarrow> Rejected (SyntaxError ''Unexpected token'')
      | Some d \<Rightarrow> Fulfilled d)"

text \<open>\<^verbatim>\<open>data.user || null\<close>.\<close>

definition or_null :: "user_field \<Rightarrow> User option" where
  "or_null f = (case f of UserValue u \<Rightarrow> Some u | NullValue \<Rightarrow> None | Missing \<Rightarrow> None)"

text \<open>Every effect of the module, as it is recorded in the event log.\<close>

datatype event =
    SetUser "User option"
  | SetIsLoading bool
  | SetCookie string string "int option"
  | Fetch http_request
  | RouterPush string
  | RouterReplace string
  | ConsoleError string exn

text \<open>
  The world an operation runs in: the provider's state, the browser's cookie jar and
  the log of effects so far.
\<close>

record world =
  user :: "User option"
  isLoading :: bool
  cookies :: "string \<rightharpoonup> string"
  events :: "event list"

text \<open>
  What the module reads from its surroundings: \<^verbatim>\<open>process.env.NEXT_PUBLIC_IAM_URL\<close>,
  \<^verbatim>\<open>window.location.origin\<close>, and the network. \<open>server e n req\<close> is how the \<open>n\<close>-th
  call of \<^verbatim>\<open>fetch\<close> (counted from 0) settles when it carries the request \<open>req\<close>: with a
  response of any status, or rejected by a transport failure.
\<close>

record env =
  IAM_URL :: string
  origin :: string
  server :: "nat \<Rightarrow> http_request \<Rightarrow> response settled"

subsection \<open>Primitive effects\<close>

definition setUser :: "User option \<Rightarrow> world \<Rightarrow> world" where
  "setUser u w = w\<lparr>user := u, events := events w @ [SetUser u]\<rparr>"

definition setIsLoading :: "bool \<Rightarrow> world \<Rightarrow> world" where
  "setIsLoading b w = w\<lparr>isLoading := b, events := events w @ [SetIsLoading b]\<rparr>"

definition getCookie :: "string \<Rightarrow> world \<Rightarrow> string option" where
  "getCookie key w = cookies w key"

text \<open>
  \<^verbatim>\<open>setCookie(key, v, { maxAge })\<close> of cookies-next writes \<^verbatim>\<open>document.cookie\<close>; the
  browser stores the pair, and removes the cookie instead when \<^verbatim>\<open>Max-Age\<close> is zero or
  negative.
\<close>

definition setCookie :: "string \<Rightarrow> string \<Rightarrow> int option \<Rightarrow> world \<Rightarrow> world" where
  "setCookie key v maxAge w =
     w\<lparr>cookies :=
         (case maxAge of
            None \<Rightarrow> (cookies w)(key \<mapsto> v)
          | Some m \<Rightarrow> if m \<le> 0 then (cookies w)(key := None) else (cookies w)(key \<mapsto> v)),
       events := events w @ [SetCookie key v maxAge]\<rparr>"

fun fetched :: "event \<Rightarrow> http_request option" where
  "fetched (Fetch req) = Some req"
| "fetched _ = None"

definition fetches :: "world \<Rightarrow> http_request list" where
  "fetches w = List.map_filter fetched (events w)"

definition fetch :: "env \<Rightarrow> http_request \<Rightarrow> world \<Rightarrow> response settled \<times> world" where
  "fetch e req w =
     (server e (length (fetches w)) req, w\<lparr>events := events w @ [Fetch req]\<rparr>)"

definition router_push :: "string \<Rightarrow> world \<Rightarrow> world" where
  "router_push href w = w\<lparr>events := events w @ [RouterPush href]\<rparr>"

definition router_replace :: "string \<Rightarrow> world \<Rightarrow> world" where
  "router_replace href w = w\<lparr>events := events w @ [RouterReplace href]\<rparr>"

definition console_error :: "string \<Rightarrow> exn \<Rightarrow> world \<Rightarrow> world" where
  "console_error label ex w = w\<lparr>events := events w @ [ConsoleError label ex]\<rparr>"

subsection \<open>Truthiness of an optional string\<close>

text \<open>\<^verbatim>\<open>undefined\<close> and the empty string are falsy, every other string is truthy.\<close>

definition truthy :: "string option \<Rightarrow> bool" where
  "truthy s = (case s of None \<Rightarrow> False | Some t \<Rightarrow> t \<noteq> [])"

text \<open>\<^verbatim>\<open>a || b\<close> where \<^verbatim>\<open>b\<close> may be undefined, and where \<^verbatim>\<open>b\<close> is a string.\<close>

definition or_else :: "string option \<Rightarrow> string option \<Rightarrow> string option" where
  "or_else a b = (if truthy a then a else b)"

definition or_string :: "string option \<Rightarrow> string \<Rightarrow> string" where
  "or_string a b = (case a of None \<Rightarrow> b | Some t \<Rightarrow> if t = [] then b else t)"

subsection \<open>The operations of \<^verbatim>\<open>UserProvider\<close>\<close>

definition account_request :: "env \<Rightarrow> string \<Rightarrow> http_request" where
  "account_request e session =
     \<lparr>url = IAM_URL e @ ''/api/account'', http_method = ''GET'',
      headers = [(''session'', session)], body = None\<rparr>"

text \<open>
  The body of the \<^verbatim>\<open>try\<close> block of \<^verbatim>\<open>fetchUser\<close>. \<^verbatim>\<open>if (!session) return null\<close> covers
  both the missing and the empty token.
\<close>

definition fetchUser_try :: "env \<Rightarrow> string option \<Rightarrow> world \<Rightarrow> User option settled \<times> world" where
  "fetchUser_try e sessionToken w =
     (let session = or_else sessionToken (getCookie ''fe-chat-session'' w) in
      case session of
        None \<Rightarrow> (Fulfilled None, w)
      | Some s \<Rightarrow>
          if s = [] then (Fulfilled None, w)
          else
            (case fetch e (account_request e s) w of
               (Rejected ex, w1) \<Rightarrow> (Rejected ex, w1)
             | (Fulfilled res, w1) \<Rightarrow>
                 if \<not> ok res then (Rejected (Error ''Failed to fetch user''), w1)
                 else
                   (case json res of
                      Rejected ex \<Rightarrow> (Rejected ex, w1)
                    | Fulfilled JsonNull \<Rightarrow>
                        (Rejected (TypeError ''Cannot read properties of null''), w1)
                    | Fulfilled (JsonObject f) \<Rightarrow> (Fulfilled (or_null f), w1))))"

definition fetchUser :: "env \<Rightarrow> string option \<Rightarrow> world \<Rightarrow> User option settled \<times> world" where
  "fetchUser e sessionToken w =
     (case fetchUser_try e sessionToken w of
        (Rejected ex, w1) \<Rightarrow> (Fulfilled None, console_error ''Error fetching user:'' ex w1)
      | (Fulfilled u, w1) \<Rightarrow> (Fulfilled u, w1))"

definition signin_url :: "env \<Rightarrow> string \<Rightarrow> string" where
  "signin_url e target = IAM_URL e @ ''/auth/signin?redirectUrl='' @ target"

definition login :: "env \<Rightarrow> string option \<Rightarrow> world \<Rightarrow> world" where
  "login e redirectUrl w = router_push (signin_url e (or_string redirectUrl (origin e))) w"

definition signout_request :: "env \<Rightarrow> string \<Rightarrow> http_request" where
  "signout_request e session =
     \<lparr>url = IAM_URL e @ ''/api/signout'', http_method = ''POST'',
      headers = [(''session'', session)],
      body = Some (''{'' @ [CHR 0x22] @ ''sessionId'' @ [CHR 0x22] @ '':''
                   @ [CHR 0x22] @ ''current'' @ [CHR 0x22] @ ''}'')\<rparr>"

text \<open>
  The body of the \<^verbatim>\<open>try\<close> block of \<^verbatim>\<open>logout\<close>; \<open>w\<close> is the world after
  \<^verbatim>\<open>setIsLoading(true)\<close>. \<open>sent\<close> is the statement \<^verbatim>\<open>if (session) { await fetch(...) }\<close>:
  a rejected \<^verbatim>\<open>fetch\<close> leaves the block at once, a fulfilled one is dropped unread.
\<close>

definition logout_try :: "env \<Rightarrow> string option \<Rightarrow> world \<Rightarrow> unit settled \<times> world" where
  "logout_try e redirectUrl w =
     (let session = getCookie ''fe-chat-session'' w;
          sent = (case session of
                    None \<Rightarrow> (Fulfilled (), w)
                  | Some s \<Rightarrow>
                      if s = [] then (Fulfilled (), w)
                      else
                        (case fetch e (signout_request e s) w of
                           (Rejected ex, w1) \<Rightarrow> (Rejected ex, w1)
                         | (Fulfilled res, w1) \<Rightarrow> (Fulfilled (), w1)))
      in case sent of
           (Rejected ex, w1) \<Rightarrow> (Rejected ex, w1)
         | (Fulfilled _, w1) \<Rightarrow>
             (let w2 = setUser None w1;
                  w3 = setCookie ''fe-chat-session'' [] (Some (- 1)) w2
              in (Fulfilled (),
                  if truthy redirectUrl
                  then router_replace (or_string redirectUrl (origin e)) w3
                  else w3)))"

definition logout :: "env \<Rightarrow> string option \<Rightarrow> world \<Rightarrow> world" where
  "logout e redirectUrl w =
     (let w1 = setIsLoading True w;
          w2 = (case logout_try e redirectUrl w1 of
                  (Rejected ex, w') \<Rightarrow> console_error ''Logout error:'' ex w'
                | (Fulfilled _, w') \<Rightarrow> w')
      in setIsLoading False w2)"

definition refreshUser :: "env \<Rightarrow> string option \<Rightarrow> world \<Rightarrow> world" where
  "refreshUser e sessionToken w =
     (let w1 = setIsLoading True w;
          w2 = (case fetchUser e sessionToken w1 of
                  (Rejected ex, w') \<Rightarrow> setUser None (console_error ''Refresh user error:'' ex w')
                | (Fulfilled userData, w') \<Rightarrow> setUser userData w')
      in setIsLoading False w2)"

definition setUserFromSession :: "env \<Rightarrow> string \<Rightarrow> world \<Rightarrow> world" where
  "setUserFromSession e session w =
     (let w1 = setIsLoading True w;
          w2 = setCookie ''fe-chat-session'' session None w1;
          w3 = (case fetchUser e (Some session) w2 of
                  (Rejected ex, w') \<Rightarrow>
                    setUser None (console_error ''Set user from session error:'' ex w')
                | (Fulfilled userData, w') \<Rightarrow> setUser userData w')
      in setIsLoading False w3)"

text \<open>The effect run once on mount.\<close>

definition initializeUser :: "env \<Rightarrow> world \<Rightarrow> world" where
  "initializeUser e w =
     (let w1 = setIsLoading True w;
          w2 = (case fetchUser e None w1 of
                  (Rejected ex, w') \<Rightarrow> setUser None (console_error ''Initialize user error:'' ex w')
                | (Fulfilled userData, w') \<Rightarrow> setUser userData w')
      in setIsLoading False w2)"

text \<open>The provider's state when it mounts: \<^verbatim>\<open>useState(null)\<close> and \<^verbatim>\<open>useState(true)\<close>.\<close>

definition mounted :: "(string \<rightharpoonup> string) \<Rightarrow> world" where
  "mounted jar = \<lparr>user = None, isLoading = True, cookies = jar, events = []\<rparr>"

subsection \<open>What an observer sees while an operation runs\<close>

text \<open>
  The provider's state is the pair of \<^verbatim>\<open>user\<close> and \<^verbatim>\<open>isLoading\<close>. Only the two state
  setters change it.
\<close>

fun apply_event :: "event \<Rightarrow> User option \<times> bool \<Rightarrow> User option \<times> bool" where
  "apply_event (SetUser u) (_, l) = (u, l)"
| "apply_event (SetIsLoading b) (u, _) = (u, b)"
| "apply_event _ s = s"

text \<open>The provider's state after each event of a run that starts in state \<open>s\<close>.\<close>

fun states_after :: "User option \<times> bool \<Rightarrow> event list \<Rightarrow> (User option \<times> bool) list" where
  "states_after s [] = []"
| "states_after s (ev # evs) = apply_event ev s # states_after (apply_event ev s) evs"

text \<open>The events an operation appended when it took the world \<open>w\<close> to \<open>w'\<close>.\<close>

definition appended :: "world \<Rightarrow> world \<Rightarrow> event list" where
  "appended w w' = drop (length (events w)) (events w')"

definition observations :: "world \<Rightarrow> world \<Rightarrow> (User option \<times> bool) list" where
  "observations w w' = states_after (user w, isLoading w) (appended w w')"

text \<open>
  An operation that took \<open>w\<close> to \<open>w'\<close> kept \<^verbatim>\<open>isLoading\<close> true until it was done: every
  state between its first and its last step has \<^verbatim>\<open>isLoading = true\<close>, and its last
  step is \<^verbatim>\<open>setIsLoading(false)\<close>.
\<close>

definition loading_until_done :: "world \<Rightarrow> world \<Rightarrow> bool" where
  "loading_until_done w w' \<longleftrightarrow>
     appended w w' \<noteq> [] \<and>
     list_all snd (butlast (observations w w')) \<and>
     last (appended w w') = SetIsLoading False \<and>
     \<not> isLoading w'"

subsection \<open>Example values\<close>

definition alice :: User where
  "alice =
     \<lparr>dollar_id = ''1'', dollar_createdAt = ''2024-01-01'', dollar_updatedAt = ''2024-01-02'',
      email = ''a@b.com'', name = None, emailVerification = True\<rparr>"

text \<open>A server that answers every request with the given status and body.\<close>

definition answering :: "nat \<Rightarrow> json_data option \<Rightarrow> env" where
  "answering code d =
     \<lparr>IAM_URL = ''https://iam.example'', origin = ''https://app.example'',
      server = (\<lambda>n req. Fulfilled \<lparr>status = code, payload = d\<rparr>)\<rparr>"

text \<open>A network on which every request fails in transport.\<close>

definition offline :: env where
  "offline =
     \<lparr>IAM_URL = ''https://iam.example'', origin = ''https://app.example'',
      server = (\<lambda>n req. Rejected (TypeError ''Failed to fetch''))\<rparr>"

text \<open>A page where Alice is logged in with the session \<^verbatim>\<open>abc\<close> and nothing is loading.\<close>

definition logged_in :: world where
  "logged_in =
     \<lparr>user = Some alice, isLoading = False,
      cookies = [''fe-chat-session'' \<mapsto> ''abc''], events = []\<rparr>"

section \<open>Properties\<close>

subsection \<open>Auxiliary facts\<close>

text \<open>The primitive effects, to be unfolded together.\<close>

lemmas prim_defs = setUser_def setIsLoading_def getCookie_def setCookie_def fetch_def
  router_push_def router_replace_def console_error_def

lemma fetches_snoc:
  "List.map_filter fetched (evs @ [ev]) =
     List.map_filter fetched evs @ (case fetched ev of None \<Rightarrow> [] | Some r \<Rightarrow> [r])"
  by (simp add: List.map_filter_def split: option.splits)

text \<open>What \<^verbatim>\<open>fetchUser\<close> returns, case by case.\<close>

lemma fetchUser_fulfils: "\<exists>u w'. fetchUser e tok w = (Fulfilled u, w')"
  by (simp add: fetchUser_def split: prod.splits settled.splits)

lemma fetchUser_no_token:
  assumes "or_else tok (getCookie ''fe-chat-session'' w) = None
           \<or> or_else tok (getCookie ''fe-chat-session'' w) = Some []"
  shows "fetchUser e tok w = (Fulfilled None, w)"
  using assms by (auto simp: fetchUser_def fetchUser_try_def)

lemma fetchUser_rejected:
  assumes "or_else tok (getCookie ''fe-chat-session'' w) = Some s" "s \<noteq> []"
    and "server e (length (fetches w)) (account_request e s) = Rejected ex"
  shows "fetchUser e tok w =
           (Fulfilled None,
            w\<lparr>events := events w @ [Fetch (account_request e s), ConsoleError ''Error fetching user:'' ex]\<rparr>)"
  using assms by (simp add: fetchUser_def fetchUser_try_def fetch_def console_error_def)

lemma fetchUser_not_ok:
  assumes "or_else tok (getCookie ''fe-chat-session'' w) = Some s" "s \<noteq> []"
    and "server e (length (fetches w)) (account_request e s) = Fulfilled res" "\<not> ok res"
  shows "fetchUser e tok w =
           (Fulfilled None,
            w\<lparr>events := events w @ [Fetch (account_request e s),
                 ConsoleError ''Error fetching user:'' (Error ''Failed to fetch user'')]\<rparr>)"
  using assms by (simp add: fetchUser_def fetchUser_try_def fetch_def console_error_def)

lemma fetchUser_ok_object:
  assumes "or_else tok (getCookie ''fe-chat-session'' w) = Some s" "s \<noteq> []"
    and "server e (length (fetches w)) (account_request e s) = Fulfilled res" "ok res"
    and "payload res = Some (JsonObject f)"
  shows "fetchUser e tok w =
           (Fulfilled (or_null f), w\<lparr>events := events w @ [Fetch (account_request e s)]\<rparr>)"
  using assms by (simp add: fetchUser_def fetchUser_try_def fetch_def json_def)

lemma fetchUser_frame:
  assumes "fetchUser e tok w = (r, w')"
  shows "user w' = user w \<and> isLoading w' = isLoading w \<and> cookies w' = cookies w"
  using assms
  by (auto simp: fetchUser_def fetchUser_try_def fetch_def console_error_def Let_def
      split: option.splits if_splits settled.splits prod.splits json_data.splits)

text \<open>The three ways through \<^verbatim>\<open>logout\<close>.\<close>

lemma logout_no_token:
  assumes "getCookie ''fe-chat-session'' w = None \<or> getCookie ''fe-chat-session'' w = Some []"
  shows "logout e r w =
           w\<lparr>user := None, isLoading := False,
             cookies := (cookies w)(''fe-chat-session'' := None),
             events := events w @
               [SetIsLoading True, SetUser None, SetCookie ''fe-chat-session'' [] (Some (- 1))] @
               (case r of None \<Rightarrow> [] | Some t \<Rightarrow> if t = [] then [] else [RouterReplace t]) @
               [SetIsLoading False]\<rparr>"
  using assms
  by (auto simp: logout_def logout_try_def prim_defs truthy_def or_string_def Let_def
      split: option.splits)

lemma logout_fulfilled:
  assumes "getCookie ''fe-chat-session'' w = Some s" "s \<noteq> []"
    and "server e (length (fetches w)) (signout_request e s) = Fulfilled res"
  shows "logout e r w =
           w\<lparr>user := None, isLoading := False,
             cookies := (cookies w)(''fe-chat-session'' := None),
             events := events w @
               [SetIsLoading True, Fetch (signout_request e s), SetUser None,
                SetCookie ''fe-chat-session'' [] (Some (- 1))] @
               (case r of None \<Rightarrow> [] | Some t \<Rightarrow> if t = [] then [] else [RouterReplace t]) @
               [SetIsLoading False]\<rparr>"
  using assms
  by (auto simp: logout_def logout_try_def prim_defs truthy_def or_string_def Let_def
      fetches_def fetches_snoc split: option.splits)

lemma logout_rejected:
  assumes "getCookie ''fe-chat-session'' w = Some s" "s \<noteq> []"
    and "server e (length (fetches w)) (signout_request e s) = Rejected ex"
  shows "logout e r w =
           w\<lparr>isLoading := False,
             events := events w @
               [SetIsLoading True, Fetch (signout_request e s),
                ConsoleError ''Logout error:'' ex, SetIsLoading False]\<rparr>"
  using assms
  by (auto simp: logout_def logout_try_def prim_defs truthy_def or_string_def Let_def
      fetches_def fetches_snoc split: option.splits)

lemma fetches_events_append:
  "fetches (w\<lparr>events := events w' @ evs\<rparr>) = fetches w' @ List.map_filter fetched evs"
  by (simp add: fetches_def List.map_filter_def)

lemma fetches_update [simp]:
  "fetches (w\<lparr>user := u\<rparr>) = fetches w"
  "fetches (w\<lparr>isLoading := b\<rparr>) = fetches w"
  "fetches (w\<lparr>cookies := c\<rparr>) = fetches w"
  by (simp_all add: fetches_def)

lemma getCookie_prims [simp]:
  "getCookie k (setIsLoading b w) = getCookie k w"
  "getCookie k (setUser u w) = getCookie k w"
  "getCookie k (setCookie k v None w) = Some v"
  by (simp_all add: prim_defs)

lemma fetches_prims [simp]:
  "fetches (setIsLoading b w) = fetches w"
  "fetches (setUser u w) = fetches w"
  "fetches (setCookie k v m w) = fetches w"
  by (simp_all add: prim_defs fetches_def fetches_snoc)

lemma fetchUser_events:
  assumes "fetchUser e tok w = (r, w')"
  shows "\<exists>mid. events w' = events w @ mid \<and>
           (\<forall>ev \<in> set mid. \<forall>u b. ev \<noteq> SetUser u \<and> ev \<noteq> SetIsLoading b)"
  using assms
  by (auto simp: fetchUser_def fetchUser_try_def fetch_def console_error_def Let_def
      split: option.splits if_splits settled.splits prod.splits json_data.splits)

text \<open>States along a run.\<close>

lemma states_after_snoc:
  "states_after s (evs @ [ev]) = states_after s evs @ [apply_event ev (foldl (\<lambda>s ev. apply_event ev s) s evs)]"
  by (induction evs arbitrary: s) simp_all

lemma states_after_loading:
  "snd s \<Longrightarrow> SetIsLoading False \<notin> set evs \<Longrightarrow> list_all snd (states_after s evs)"
proof (induction evs arbitrary: s)
  case Nil
  then show ?case by simp
next
  case (Cons ev evs)
  then have "snd (apply_event ev s)"
    by (cases ev; cases s) auto
  with Cons show ?case by simp
qed

lemma loading_until_doneI:
  assumes "events w' = events w @ SetIsLoading True # mid @ [SetIsLoading False]"
    and "SetIsLoading False \<notin> set mid" and "\<not> isLoading w'"
  shows "loading_until_done w w'"
proof -
  have app: "appended w w' = (SetIsLoading True # mid) @ [SetIsLoading False]"
    using assms(1) by (simp add: appended_def)
  have "butlast (observations w w') = states_after (user w, isLoading w) (SetIsLoading True # mid)"
    unfolding observations_def app states_after_snoc by simp
  also have "list_all snd \<dots>"
    using assms(2) by (simp add: states_after_loading)
  finally show ?thesis
    using assms(3) app by (simp add: loading_until_done_def)
qed

text \<open>Every loading operation starts with \<^verbatim>\<open>setIsLoading(true)\<close>, ends with
  \<^verbatim>\<open>setIsLoading(false)\<close> and does not reset the flag in between.\<close>

lemma logout_shape:
  "\<exists>mid. events (logout e r w) = events w @ SetIsLoading True # mid @ [SetIsLoading False] \<and>
         SetIsLoading False \<notin> set mid"
proof (cases "getCookie ''fe-chat-session'' w = None \<or> getCookie ''fe-chat-session'' w = Some []")
  case True
  then show ?thesis
    by (simp add: logout_no_token split: option.splits)
next
  case False
  then obtain s where s: "getCookie ''fe-chat-session'' w = Some s" "s \<noteq> []"
    by auto
  show ?thesis
  proof (cases "server e (length (fetches w)) (signout_request e s)")
    case (Fulfilled res)
    with s show ?thesis
      by (simp add: logout_fulfilled split: option.splits)
  next
    case (Rejected ex)
    with s show ?thesis
      by (simp add: logout_rejected)
  qed
qed

lemma logout_not_loading: "\<not> isLoading (logout e r w)"
  by (simp add: logout_def setIsLoading_def Let_def)

text \<open>The three operations that resolve a user end alike.\<close>

lemma resolve_shape:
  assumes "fetchUser e tok w1 = (Fulfilled u, w2)"
    and "events w1 = events w @ SetIsLoading True # pre"
    and "SetIsLoading False \<notin> set pre"
  shows "\<exists>mid. events (setIsLoading False (setUser u w2)) =
                 events w @ SetIsLoading True # mid @ [SetIsLoading False] \<and>
               SetIsLoading False \<notin> set mid"
proof -
  from fetchUser_events [OF assms(1)] obtain mid
    where mid: "events w2 = events w1 @ mid"
      "\<forall>ev \<in> set mid. \<forall>u b. ev \<noteq> SetUser u \<and> ev \<noteq> SetIsLoading b"
    by blast
  have "events (setIsLoading False (setUser u w2)) =
          events w @ SetIsLoading True # (pre @ mid @ [SetUser u]) @ [SetIsLoading False]"
    using mid(1) assms(2) by (simp add: setIsLoading_def setUser_def)
  moreover have "SetIsLoading False \<notin> set (pre @ mid @ [SetUser u])"
    using mid(2) assms(3) by auto
  ultimately show ?thesis by blast
qed

lemma refreshUser_eq:
  assumes "fetchUser e tok (setIsLoading True w) = (Fulfilled u, w2)"
  shows "refreshUser e tok w = setIsLoading False (setUser u w2)"
  using assms by (simp add: refreshUser_def)

lemma initializeUser_eq:
  assumes "fetchUser e None (setIsLoading True w) = (Fulfilled u, w2)"
  shows "initializeUser e w = setIsLoading False (setUser u w2)"
  using assms by (simp add: initializeUser_def)

lemma setUserFromSession_eq:
  assumes "fetchUser e (Some s) (setCookie ''fe-chat-session'' s None (setIsLoading True w))
             = (Fulfilled u, w2)"
  shows "setUserFromSession e s w = setIsLoading False (setUser u w2)"
  using assms by (simp add: setUserFromSession_def)

lemma refreshUser_shape:
  "\<exists>mid. events (refreshUser e tok w) = events w @ SetIsLoading True # mid @ [SetIsLoading False] \<and>
         SetIsLoading False \<notin> set mid"
proof -
  obtain u w2 where f: "fetchUser e tok (setIsLoading True w) = (Fulfilled u, w2)"
    using fetchUser_fulfils by blast
  have "events (setIsLoading True w) = events w @ SetIsLoading True # []"
    by (simp add: setIsLoading_def)
  from resolve_shape [OF f this] show ?thesis
    by (simp add: refreshUser_eq [OF f])
qed

lemma setUserFromSession_shape:
  "\<exists>mid. events (setUserFromSession e s w) =
           events w @ SetIsLoading True # mid @ [SetIsLoading False] \<and>
         SetIsLoading False \<notin> set mid"
proof -
  obtain u w2 where f:
    "fetchUser e (Some s) (setCookie ''fe-chat-session'' s None (setIsLoading True w))
       = (Fulfilled u, w2)"
    using fetchUser_fulfils by blast
  have "events (setCookie ''fe-chat-session'' s None (setIsLoading True w)) =
          events w @ SetIsLoading True # [SetCookie ''fe-chat-session'' s None]"
    by (simp add: setIsLoading_def setCookie_def)
  from resolve_shape [OF f this] show ?thesis
    by (simp add: setUserFromSession_eq [OF f])
qed

lemma resolved_user:
  assumes "fetchUser e tok w1 = (Fulfilled u, w2)"
  shows "user (setIsLoading False (setUser u w2)) = u"
    and "cookies (setIsLoading False (setUser u w2)) = cookies w1"
    and "isLoading (setIsLoading False (setUser u w2)) = False"
  using fetchUser_frame [OF assms] by (simp_all add: setIsLoading_def setUser_def)

text \<open>What a second resolution depends on.\<close>

lemma fetchUser_fetches:
  assumes "fetchUser e tok w = (r, w')"
  shows "fetches w' =
           fetches w @
             (case or_else tok (getCookie ''fe-chat-session'' w) of
                None \<Rightarrow> []
              | Some s \<Rightarrow> if s = [] then [] else [account_request e s])"
  using assms
  by (auto simp: fetchUser_def fetchUser_try_def fetch_def console_error_def Let_def
      fetches_def List.map_filter_def
      split: option.splits if_splits settled.splits prod.splits json_data.splits)

lemma fetchUser_fst_cong:
  assumes "getCookie ''fe-chat-session'' w' = getCookie ''fe-chat-session'' w"
    and "\<And>s. server e (length (fetches w')) (account_request e s) =
              server e (length (fetches w)) (account_request e s)"
  shows "fst (fetchUser e tok w') = fst (fetchUser e tok w)"
  using assms
  by (simp add: fetchUser_def fetchUser_try_def fetch_def Let_def
      split: option.splits settled.splits prod.splits json_data.splits)

lemma refreshUser_result:
  assumes "fetchUser e tok (setIsLoading True w) = (Fulfilled u, w2)"
  shows "user (refreshUser e tok w) = u"
    and "cookies (refreshUser e tok w) = cookies w"
    and "fetches (refreshUser e tok w) = fetches w2"
  using fetchUser_frame [OF assms]
  by (simp_all add: refreshUser_eq [OF assms] setIsLoading_def setUser_def fetches_def
      List.map_filter_def)

subsection \<open>The claims\<close>

text \<open>
  C1. The claim says that \<^verbatim>\<open>logout\<close> ends with \<^verbatim>\<open>user = null\<close> and the cookie cleared
  also when the signout request throws. The code does not: with Alice logged in under
  the session \<^verbatim>\<open>abc\<close> and a network on which \<^verbatim>\<open>fetch\<close> rejects, \<^verbatim>\<open>logout()\<close> jumps from
  the rejected \<^verbatim>\<open>fetch\<close> to its \<^verbatim>\<open>catch\<close>, logs the error and resets \<^verbatim>\<open>isLoading\<close>; the
  user is still Alice and the cookie is still \<^verbatim>\<open>abc\<close>.
\<close>

theorem logout_transport_failure:
  "user (logout offline None logged_in) = Some alice \<and>
   getCookie ''fe-chat-session'' (logout offline None logged_in) = Some ''abc'' \<and>
   events (logout offline None logged_in) =
     [SetIsLoading True, Fetch (signout_request offline ''abc''),
      ConsoleError ''Logout error:'' (TypeError ''Failed to fetch''), SetIsLoading False]"
proof -
  have "getCookie ''fe-chat-session'' logged_in = Some ''abc''"
    by (simp add: getCookie_def logged_in_def)
  moreover have "server offline (length (fetches logged_in)) (signout_request offline ''abc'')
                   = Rejected (TypeError ''Failed to fetch'')"
    by (simp add: offline_def)
  ultimately have "logout offline None logged_in =
      logged_in\<lparr>isLoading := False,
        events := events logged_in @
          [SetIsLoading True, Fetch (signout_request offline ''abc''),
           ConsoleError ''Logout error:'' (TypeError ''Failed to fetch''), SetIsLoading False]\<rparr>"
    by (intro logout_rejected) simp_all
  then show ?thesis
    by (simp add: getCookie_def logged_in_def)
qed

text \<open>
  C2, as amended. For each of \<^verbatim>\<open>logout\<close>, \<^verbatim>\<open>refreshUser\<close> and \<^verbatim>\<open>setUserFromSession\<close>, run
  on its own: the first step sets \<^verbatim>\<open>isLoading = true\<close>, every state of the provider
  between the first and the last step has \<^verbatim>\<open>isLoading = true\<close>, and the last step sets
  \<^verbatim>\<open>isLoading = false\<close>. \<^verbatim>\<open>login\<close> is not such an operation: its only step is the
  navigation, and it leaves \<^verbatim>\<open>isLoading\<close> as it was.
\<close>

theorem loading_while_running:
  "(loading_until_done w (logout e r w) \<and>
      hd (appended w (logout e r w)) = SetIsLoading True) \<and>
   (loading_until_done w (refreshUser e tok w) \<and>
      hd (appended w (refreshUser e tok w)) = SetIsLoading True) \<and>
   (loading_until_done w (setUserFromSession e s w) \<and>
      hd (appended w (setUserFromSession e s w)) = SetIsLoading True) \<and>
   (appended w (login e r w) = [RouterPush (signin_url e (or_string r (origin e)))] \<and>
      isLoading (login e r w) = isLoading w)"
proof (intro conjI)
  obtain mid where "events (logout e r w) = events w @ SetIsLoading True # mid @ [SetIsLoading False]"
    "SetIsLoading False \<notin> set mid"
    using logout_shape by blast
  then show "loading_until_done w (logout e r w)"
    and "hd (appended w (logout e r w)) = SetIsLoading True"
    by (simp_all add: loading_until_doneI logout_not_loading appended_def)
next
  obtain mid where
    "events (refreshUser e tok w) = events w @ SetIsLoading True # mid @ [SetIsLoading False]"
    "SetIsLoading False \<notin> set mid"
    using refreshUser_shape by blast
  moreover have "\<not> isLoading (refreshUser e tok w)"
    by (simp add: refreshUser_def setIsLoading_def Let_def)
  ultimately show "loading_until_done w (refreshUser e tok w)"
    and "hd (appended w (refreshUser e tok w)) = SetIsLoading True"
    by (simp_all add: loading_until_doneI appended_def)
next
  obtain mid where
    "events (setUserFromSession e s w) = events w @ SetIsLoading True # mid @ [SetIsLoading False]"
    "SetIsLoading False \<notin> set mid"
    using setUserFromSession_shape by blast
  moreover have "\<not> isLoading (setUserFromSession e s w)"
    by (simp add: setUserFromSession_def setIsLoading_def Let_def)
  ultimately show "loading_until_done w (setUserFromSession e s w)"
    and "hd (appended w (setUserFromSession e s w)) = SetIsLoading True"
    by (simp_all add: loading_until_doneI appended_def)
next
  show "appended w (login e r w) = [RouterPush (signin_url e (or_string r (origin e)))]"
    and "isLoading (login e r w) = isLoading w"
    by (simp_all add: login_def router_push_def appended_def)
qed

theorem loading_while_running_witness:
  "loading_until_done logged_in (logout offline None logged_in) \<and>
   loading_until_done logged_in (refreshUser (answering 401 None) None logged_in) \<and>
   loading_until_done (mounted Map.empty)
     (setUserFromSession (answering 200 (Some (JsonObject (UserValue alice)))) ''abc''
        (mounted Map.empty)) \<and>
   isLoading (login offline None logged_in) = False"
  using loading_while_running [of logged_in offline None None "''abc''"]
    loading_while_running [of logged_in "answering 401 None" None None "''abc''"]
    loading_while_running [of "mounted Map.empty"
      "answering 200 (Some (JsonObject (UserValue alice)))" None None "''abc''"]
  by (simp add: logged_in_def)

text \<open>
  The claim C2 as stated, for all four operations, fails at \<^verbatim>\<open>login\<close>: run from a
  page where nothing is loading, the provider's state during \<^verbatim>\<open>login()\<close> has
  \<^verbatim>\<open>isLoading = false\<close> and the last step is not \<^verbatim>\<open>setIsLoading(false)\<close>; run right
  after mount, it completes with \<^verbatim>\<open>isLoading\<close> still true.
\<close>

theorem login_not_loading_counterexample:
  "\<not> loading_until_done logged_in (login offline None logged_in) \<and>
   observations logged_in (login offline None logged_in) = [(Some alice, False)] \<and>
   isLoading (login offline None (mounted Map.empty)) = True"
  by (simp add: loading_until_done_def observations_def appended_def login_def router_push_def
      logged_in_def mounted_def)

text \<open>
  C3. \<^verbatim>\<open>fetchUser\<close> never throws: for every token override, world and network its
  promise is fulfilled. When a token is available (the override, else the cookie), a
  transport failure, a status outside 200..299 and a body without a \<^verbatim>\<open>user\<close> field
  all give \<^verbatim>\<open>null\<close>, and a 2xx response with a user in the \<^verbatim>\<open>user\<close> field gives that
  user.
\<close>

theorem fetchUser_never_throws:
  "(\<exists>u w'. fetchUser e tok w = (Fulfilled u, w')) \<and>
   (or_else tok (getCookie ''fe-chat-session'' w) = Some s \<and> s \<noteq> [] \<longrightarrow>
      (\<forall>ex. server e (length (fetches w)) (account_request e s) = Rejected ex \<longrightarrow>
            fst (fetchUser e tok w) = Fulfilled None) \<and>
      (\<forall>res. server e (length (fetches w)) (account_request e s) = Fulfilled res \<longrightarrow>
         (\<not> ok res \<longrightarrow> fst (fetchUser e tok w) = Fulfilled None) \<and>
         (ok res \<and> payload res = Some (JsonObject Missing) \<longrightarrow>
            fst (fetchUser e tok w) = Fulfilled None) \<and>
         (\<forall>u. ok res \<and> payload res = Some (JsonObject (UserValue u)) \<longrightarrow>
            fst (fetchUser e tok w) = Fulfilled (Some u))))"
proof (intro conjI impI allI)
  show "\<exists>u w'. fetchUser e tok w = (Fulfilled u, w')"
    by (rule fetchUser_fulfils)
next
  fix ex
  assume "or_else tok (getCookie ''fe-chat-session'' w) = Some s \<and> s \<noteq> []"
    and "server e (length (fetches w)) (account_request e s) = Rejected ex"
  then show "fst (fetchUser e tok w) = Fulfilled None"
    by (simp add: fetchUser_rejected)
next
  fix res
  assume "or_else tok (getCookie ''fe-chat-session'' w) = Some s \<and> s \<noteq> []"
    and "server e (length (fetches w)) (account_request e s) = Fulfilled res"
    and "\<not> ok res"
  then show "fst (fetchUser e tok w) = Fulfilled None"
    by (simp add: fetchUser_not_ok)
next
  fix res
  assume "or_else tok (getCookie ''fe-chat-session'' w) = Some s \<and> s \<noteq> []"
    and "server e (length (fetches w)) (account_request e s) = Fulfilled res"
    and "ok res \<and> payload res = Some (JsonObject Missing)"
  then show "fst (fetchUser e tok w) = Fulfilled None"
    by (simp add: fetchUser_ok_object or_null_def)
next
  fix res u
  assume "or_else tok (getCookie ''fe-chat-session'' w) = Some s \<and> s \<noteq> []"
    and "server e (length (fetches w)) (account_request e s) = Fulfilled res"
    and "ok res \<and> payload res = Some (JsonObject (UserValue u))"
  then show "fst (fetchUser e tok w) = Fulfilled (Some u)"
    by (simp add: fetchUser_ok_object or_null_def)
qed

theorem fetchUser_never_throws_witness:
  "fst (fetchUser offline (Some ''abc'') (mounted Map.empty)) = Fulfilled None \<and>
   fst (fetchUser (answering 401 None) (Some ''abc'') (mounted Map.empty)) = Fulfilled None \<and>
   fst (fetchUser (answering 200 (Some (JsonObject Missing))) (Some ''abc'') (mounted Map.empty))
     = Fulfilled None \<and>
   fst (fetchUser (answering 200 (Some (JsonObject (UserValue alice)))) (Some ''abc'')
          (mounted Map.empty)) = Fulfilled (Some alice)"
proof -
  have tok: "or_else (Some ''abc'') (getCookie ''fe-chat-session'' (mounted Map.empty)) = Some ''abc''
             \<and> ''abc'' \<noteq> []"
    by (simp add: or_else_def truthy_def)
  have a: "server offline (length (fetches (mounted Map.empty))) (account_request offline ''abc'')
             = Rejected (TypeError ''Failed to fetch'')"
    by (simp add: offline_def)
  have b: "server (answering 401 None) (length (fetches (mounted Map.empty)))
             (account_request (answering 401 None) ''abc'') = Fulfilled \<lparr>status = 401, payload = None\<rparr>
           \<and> \<not> ok \<lparr>status = 401, payload = None\<rparr>"
    by (simp add: answering_def ok_def)
  have c: "server (answering 200 (Some (JsonObject Missing))) (length (fetches (mounted Map.empty)))
             (account_request (answering 200 (Some (JsonObject Missing))) ''abc'')
             = Fulfilled \<lparr>status = 200, payload = Some (JsonObject Missing)\<rparr>
           \<and> ok \<lparr>status = 200, payload = Some (JsonObject Missing)\<rparr>"
    by (simp add: answering_def ok_def)
  have d: "server (answering 200 (Some (JsonObject (UserValue alice))))
             (length (fetches (mounted Map.empty)))
             (account_request (answering 200 (Some (JsonObject (UserValue alice)))) ''abc'')
             = Fulfilled \<lparr>status = 200, payload = Some (JsonObject (UserValue alice))\<rparr>
           \<and> ok \<lparr>status = 200, payload = Some (JsonObject (UserValue alice))\<rparr>"
    by (simp add: answering_def ok_def)
  show ?thesis
    using tok a b c d
      fetchUser_never_throws [of offline "Some ''abc''" "mounted Map.empty" "''abc''"]
      fetchUser_never_throws [of "answering 401 None" "Some ''abc''" "mounted Map.empty" "''abc''"]
      fetchUser_never_throws [of "answering 200 (Some (JsonObject Missing))" "Some ''abc''"
        "mounted Map.empty" "''abc''"]
      fetchUser_never_throws [of "answering 200 (Some (JsonObject (UserValue alice)))" "Some ''abc''"
        "mounted Map.empty" "''abc''"]
    by simp
qed

text \<open>
  C4. For every token \<open>T\<close>, after \<^verbatim>\<open>setUserFromSession(T)\<close> the cookie
  \<^verbatim>\<open>fe-chat-session\<close> holds \<open>T\<close>; and when the account endpoint answers the request
  for \<open>T\<close> with a 2xx response whose body can be read, \<^verbatim>\<open>user\<close> is the user of that
  body, or \<^verbatim>\<open>null\<close> when the body reports none.
\<close>

theorem setUserFromSession_adopts:
  "getCookie ''fe-chat-session'' (setUserFromSession e T w) = Some T \<and>
   (T \<noteq> [] \<and> server e (length (fetches w)) (account_request e T) = Fulfilled res \<and>
    ok res \<and> payload res = Some (JsonObject f) \<longrightarrow>
      user (setUserFromSession e T w) =
        (case f of UserValue u \<Rightarrow> Some u | NullValue \<Rightarrow> None | Missing \<Rightarrow> None))"
proof (intro conjI impI)
  let ?w2 = "setCookie ''fe-chat-session'' T None (setIsLoading True w)"
  obtain u w3 where f: "fetchUser e (Some T) ?w2 = (Fulfilled u, w3)"
    using fetchUser_fulfils by blast
  have "cookies (setUserFromSession e T w) = cookies ?w2"
    by (simp add: setUserFromSession_eq [OF f] resolved_user(2) [OF f])
  then show "getCookie ''fe-chat-session'' (setUserFromSession e T w) = Some T"
    by (simp add: getCookie_def setCookie_def)
next
  let ?w2 = "setCookie ''fe-chat-session'' T None (setIsLoading True w)"
  assume h: "T \<noteq> [] \<and> server e (length (fetches w)) (account_request e T) = Fulfilled res \<and>
    ok res \<and> payload res = Some (JsonObject f)"
  then have tok: "or_else (Some T) (getCookie ''fe-chat-session'' ?w2) = Some T"
    by (simp add: or_else_def truthy_def)
  have srv: "server e (length (fetches ?w2)) (account_request e T) = Fulfilled res"
    using h by simp
  have f: "fetchUser e (Some T) ?w2 =
      (Fulfilled (or_null f), ?w2\<lparr>events := events ?w2 @ [Fetch (account_request e T)]\<rparr>)"
    using tok srv h by (intro fetchUser_ok_object) blast+
  show "user (setUserFromSession e T w) =
        (case f of UserValue u \<Rightarrow> Some u | NullValue \<Rightarrow> None | Missing \<Rightarrow> None)"
    by (simp add: setUserFromSession_eq [OF f] setIsLoading_def setUser_def or_null_def)
qed

theorem setUserFromSession_adopts_witness:
  "getCookie ''fe-chat-session''
     (setUserFromSession (answering 200 (Some (JsonObject (UserValue alice)))) ''abc''
        (mounted Map.empty)) = Some ''abc'' \<and>
   user (setUserFromSession (answering 200 (Some (JsonObject (UserValue alice)))) ''abc''
        (mounted Map.empty)) = Some alice"
proof -
  let ?res = "\<lparr>status = 200, payload = Some (JsonObject (UserValue alice))\<rparr>"
  have "''abc'' \<noteq> [] \<and>
        server (answering 200 (Some (JsonObject (UserValue alice))))
          (length (fetches (mounted Map.empty)))
          (account_request (answering 200 (Some (JsonObject (UserValue alice)))) ''abc'')
          = Fulfilled ?res \<and>
        ok ?res \<and> payload ?res = Some (JsonObject (UserValue alice))"
    by (simp add: answering_def ok_def)
  with setUserFromSession_adopts [of "answering 200 (Some (JsonObject (UserValue alice)))"
      "''abc''" "mounted Map.empty" ?res "UserValue alice"]
  show ?thesis by simp
qed

text \<open>
  C5. With no token in the cookie (no cookie, or an empty one), the effect run on mount,
  which passes no override, ends with \<^verbatim>\<open>user = null\<close> and \<^verbatim>\<open>isLoading = false\<close> and calls
  \<^verbatim>\<open>fetch\<close> not once: its only effects are the three state writes.
\<close>

theorem initializeUser_without_token:
  assumes "getCookie ''fe-chat-session'' w = None \<or> getCookie ''fe-chat-session'' w = Some []"
  shows "user (initializeUser e w) = None \<and>
         fetches (initializeUser e w) = fetches w \<and>
         isLoading (initializeUser e w) = False \<and>
         events (initializeUser e w) =
           events w @ [SetIsLoading True, SetUser None, SetIsLoading False]"
proof -
  have "or_else None (getCookie ''fe-chat-session'' (setIsLoading True w)) = None \<or>
        or_else None (getCookie ''fe-chat-session'' (setIsLoading True w)) = Some []"
    using assms by (simp add: or_else_def truthy_def)
  then have f: "fetchUser e None (setIsLoading True w) = (Fulfilled None, setIsLoading True w)"
    by (rule fetchUser_no_token)
  show ?thesis
    by (simp add: initializeUser_eq [OF f] setIsLoading_def setUser_def fetches_def
        List.map_filter_def)
qed

theorem initializeUser_without_token_witness:
  "user (initializeUser offline (mounted Map.empty)) = None \<and>
   fetches (initializeUser offline (mounted Map.empty)) = [] \<and>
   isLoading (initializeUser offline (mounted Map.empty)) = False"
proof -
  have "getCookie ''fe-chat-session'' (mounted Map.empty) = None \<or>
        getCookie ''fe-chat-session'' (mounted Map.empty) = Some []"
    by (simp add: getCookie_def mounted_def)
  from initializeUser_without_token [OF this, of offline] show ?thesis
    by (simp add: fetches_def mounted_def List.map_filter_def)
qed

text \<open>
  C6. When the cookie holds a token (a non-empty string) \<open>s\<close>, \<^verbatim>\<open>logout\<close> calls
  \<^verbatim>\<open>fetch\<close> exactly once: a POST to \<^verbatim>\<open>{IAM_URL}/api/signout\<close> with the header
  \<^verbatim>\<open>session: s\<close> and the body \<^verbatim>\<open>{"sessionId":"current"}\<close>. When it holds none, \<^verbatim>\<open>logout\<close>
  calls \<^verbatim>\<open>fetch\<close> not at all. The response is not inspected: whatever two responses
  the server may send, \<^verbatim>\<open>logout\<close> ends in the same world.
\<close>

theorem logout_signout_request:
  "(\<forall>s. getCookie ''fe-chat-session'' w = Some s \<and> s \<noteq> [] \<longrightarrow>
        fetches (logout e r w) =
          fetches w @
            [\<lparr>url = IAM_URL e @ ''/api/signout'', http_method = ''POST'',
              headers = [(''session'', s)],
              body = Some (''{'' @ [CHR 0x22] @ ''sessionId'' @ [CHR 0x22] @ '':''
                           @ [CHR 0x22] @ ''current'' @ [CHR 0x22] @ ''}'')\<rparr>]) \<and>
   (getCookie ''fe-chat-session'' w = None \<or> getCookie ''fe-chat-session'' w = Some [] \<longrightarrow>
        fetches (logout e r w) = fetches w) \<and>
   (\<forall>s res res'.
        getCookie ''fe-chat-session'' w = Some s \<and> s \<noteq> [] \<and>
        IAM_URL e' = IAM_URL e \<and> origin e' = origin e \<and>
        server e (length (fetches w)) (signout_request e s) = Fulfilled res \<and>
        server e' (length (fetches w)) (signout_request e s) = Fulfilled res' \<longrightarrow>
        logout e' r w = logout e r w)"
proof (intro conjI allI impI)
  fix s
  assume tok: "getCookie ''fe-chat-session'' w = Some s \<and> s \<noteq> []"
  show "fetches (logout e r w) =
          fetches w @
            [\<lparr>url = IAM_URL e @ ''/api/signout'', http_method = ''POST'',
              headers = [(''session'', s)],
              body = Some (''{'' @ [CHR 0x22] @ ''sessionId'' @ [CHR 0x22] @ '':''
                           @ [CHR 0x22] @ ''current'' @ [CHR 0x22] @ ''}'')\<rparr>]"
  proof (cases "server e (length (fetches w)) (signout_request e s)")
    case (Fulfilled res)
    with tok show ?thesis
      by (simp add: logout_fulfilled fetches_events_append List.map_filter_def
          signout_request_def split: option.splits)
  next
    case (Rejected ex)
    with tok show ?thesis
      by (simp add: logout_rejected fetches_events_append List.map_filter_def
          signout_request_def)
  qed
next
  assume "getCookie ''fe-chat-session'' w = None \<or> getCookie ''fe-chat-session'' w = Some []"
  then show "fetches (logout e r w) = fetches w"
    by (simp add: logout_no_token fetches_events_append List.map_filter_def
        split: option.splits)
next
  fix s res res'
  assume h: "getCookie ''fe-chat-session'' w = Some s \<and> s \<noteq> [] \<and>
        IAM_URL e' = IAM_URL e \<and> origin e' = origin e \<and>
        server e (length (fetches w)) (signout_request e s) = Fulfilled res \<and>
        server e' (length (fetches w)) (signout_request e s) = Fulfilled res'"
  then have same: "signout_request e' s = signout_request e s"
    by (simp add: signout_request_def)
  from h have "logout e r w =
           w\<lparr>user := None, isLoading := False,
             cookies := (cookies w)(''fe-chat-session'' := None),
             events := events w @
               [SetIsLoading True, Fetch (signout_request e s), SetUser None,
                SetCookie ''fe-chat-session'' [] (Some (- 1))] @
               (case r of None \<Rightarrow> [] | Some t \<Rightarrow> if t = [] then [] else [RouterReplace t]) @
               [SetIsLoading False]\<rparr>"
    by (intro logout_fulfilled [where res = res]) simp_all
  moreover from h same have "logout e' r w =
           w\<lparr>user := None, isLoading := False,
             cookies := (cookies w)(''fe-chat-session'' := None),
             events := events w @
               [SetIsLoading True, Fetch (signout_request e' s), SetUser None,
                SetCookie ''fe-chat-session'' [] (Some (- 1))] @
               (case r of None \<Rightarrow> [] | Some t \<Rightarrow> if t = [] then [] else [RouterReplace t]) @
               [SetIsLoading False]\<rparr>"
    by (intro logout_fulfilled [where res = res']) simp_all
  ultimately show "logout e' r w = logout e r w"
    using same by simp
qed

theorem logout_signout_request_witness:
  "fetches (logout (answering 200 None) None logged_in) =
     [\<lparr>url = ''https://iam.example/api/signout'', http_method = ''POST'',
       headers = [(''session'', ''abc'')],
       body = Some (''{'' @ [CHR 0x22] @ ''sessionId'' @ [CHR 0x22] @ '':''
                    @ [CHR 0x22] @ ''current'' @ [CHR 0x22] @ ''}'')\<rparr>] \<and>
   fetches (logout (answering 200 None) None (mounted Map.empty)) = [] \<and>
   logout (answering 500 None) None logged_in = logout (answering 200 None) None logged_in"
proof -
  have tok: "getCookie ''fe-chat-session'' logged_in = Some ''abc'' \<and> ''abc'' \<noteq> []"
    by (simp add: getCookie_def logged_in_def)
  have none: "getCookie ''fe-chat-session'' (mounted Map.empty) = None \<or>
              getCookie ''fe-chat-session'' (mounted Map.empty) = Some []"
    by (simp add: getCookie_def mounted_def)
  have srv: "IAM_URL (answering 500 None) = IAM_URL (answering 200 None) \<and>
             origin (answering 500 None) = origin (answering 200 None) \<and>
             server (answering 200 None) (length (fetches logged_in))
               (signout_request (answering 200 None) ''abc'')
               = Fulfilled \<lparr>status = 200, payload = None\<rparr> \<and>
             server (answering 500 None) (length (fetches logged_in))
               (signout_request (answering 200 None) ''abc'')
               = Fulfilled \<lparr>status = 500, payload = None\<rparr>"
    by (simp add: answering_def)
  have empty: "fetches logged_in = []" "fetches (mounted Map.empty) = []"
    by (simp_all add: fetches_def logged_in_def mounted_def List.map_filter_def)
  have url: "IAM_URL (answering 200 None) = ''https://iam.example''"
    by (simp add: answering_def)
  show ?thesis
    using tok none srv
      logout_signout_request [of logged_in "answering 200 None" None "answering 500 None"]
      logout_signout_request [of "mounted Map.empty" "answering 200 None" None
        "answering 200 None"]
    by (simp add: empty url)
qed

text \<open>
  C7. \<^verbatim>\<open>login\<close> has one effect, \<^verbatim>\<open>router.push\<close> to \<^verbatim>\<open>{IAM_URL}/auth/signin\<close> with
  \<^verbatim>\<open>redirectUrl\<close> set to the target, or to the page's origin when no target (or an empty
  one, which is falsy) is given. It calls \<^verbatim>\<open>fetch\<close> not at all and leaves \<^verbatim>\<open>user\<close>,
  \<^verbatim>\<open>isLoading\<close> and the cookies as they were.
\<close>

theorem login_only_navigates:
  "events (login e r w) =
     events w @
       [RouterPush (IAM_URL e @ ''/auth/signin?redirectUrl='' @
          (case r of None \<Rightarrow> origin e | Some t \<Rightarrow> if t = [] then origin e else t))] \<and>
   fetches (login e r w) = fetches w \<and>
   user (login e r w) = user w \<and>
   isLoading (login e r w) = isLoading w \<and>
   cookies (login e r w) = cookies w"
  by (simp add: login_def router_push_def signin_url_def or_string_def fetches_def
      fetches_snoc split: option.splits)

theorem login_only_navigates_witness:
  "events (login offline None logged_in) =
     [RouterPush ''https://iam.example/auth/signin?redirectUrl=https://app.example''] \<and>
   events (login offline (Some ''/home'') logged_in) =
     [RouterPush ''https://iam.example/auth/signin?redirectUrl=/home''] \<and>
   user (login offline (Some ''/home'') logged_in) = Some alice \<and>
   isLoading (login offline (Some ''/home'') logged_in) = False"
  using login_only_navigates [of offline None logged_in]
    login_only_navigates [of offline "Some ''/home''" logged_in]
  by (simp add: offline_def logged_in_def)

text \<open>
  C8. \<^verbatim>\<open>refreshUser\<close> does not change the cookies, so a second call resolves the same
  token. When the network settles the second call's request as it settled the first
  one's, the second call ends with the \<^verbatim>\<open>user\<close> the first call ended with; and when
  both requests are answered with readable 2xx responses that report the same user,
  both calls end with that user.
\<close>

theorem refreshUser_twice:
  "cookies (refreshUser e tok w) = cookies w \<and>
   (server e (Suc (length (fetches w))) = server e (length (fetches w)) \<longrightarrow>
      user (refreshUser e tok (refreshUser e tok w)) = user (refreshUser e tok w)) \<and>
   (\<forall>s res1 res2 f1 f2.
      or_else tok (getCookie ''fe-chat-session'' w) = Some s \<and> s \<noteq> [] \<and>
      server e (length (fetches w)) (account_request e s) = Fulfilled res1 \<and>
      server e (Suc (length (fetches w))) (account_request e s) = Fulfilled res2 \<and>
      ok res1 \<and> ok res2 \<and>
      payload res1 = Some (JsonObject f1) \<and> payload res2 = Some (JsonObject f2) \<and>
      or_null f1 = or_null f2 \<longrightarrow>
      user (refreshUser e tok w) = or_null f1 \<and>
      user (refreshUser e tok (refreshUser e tok w)) = or_null f1)"
proof -
  let ?w1 = "refreshUser e tok w"
  obtain u w2 where f1: "fetchUser e tok (setIsLoading True w) = (Fulfilled u, w2)"
    using fetchUser_fulfils by blast
  obtain u' w2' where f2: "fetchUser e tok (setIsLoading True ?w1) = (Fulfilled u', w2')"
    using fetchUser_fulfils by blast
  have cookie: "cookies ?w1 = cookies w"
    by (rule refreshUser_result(2) [OF f1])
  then have same_cookie: "getCookie ''fe-chat-session'' ?w1 = getCookie ''fe-chat-session'' w"
    by (simp add: getCookie_def)
  have count: "fetches ?w1 =
      fetches w @
        (case or_else tok (getCookie ''fe-chat-session'' w) of
           None \<Rightarrow> []
         | Some s \<Rightarrow> if s = [] then [] else [account_request e s])"
    using fetchUser_fetches [OF f1] by (simp add: refreshUser_result(3) [OF f1])
  have first: "user ?w1 = u" and second: "user (refreshUser e tok ?w1) = u'"
    by (rule refreshUser_result(1) [OF f1], rule refreshUser_result(1) [OF f2])
  have same_answer: "user (refreshUser e tok ?w1) = user ?w1"
    if eq: "server e (Suc (length (fetches w))) = server e (length (fetches w))"
  proof -
    have "server e (length (fetches ?w1)) = server e (length (fetches w))"
      using eq by (simp add: count split: option.splits)
    then have "fst (fetchUser e tok (setIsLoading True ?w1)) =
               fst (fetchUser e tok (setIsLoading True w))"
      using same_cookie by (intro fetchUser_fst_cong) simp_all
    then have "u' = u"
      by (simp add: f1 f2)
    then show ?thesis
      by (simp add: first second)
  qed
  have both_ok: "user ?w1 = or_null g1 \<and> user (refreshUser e tok ?w1) = or_null g1"
    if h: "or_else tok (getCookie ''fe-chat-session'' w) = Some s \<and> s \<noteq> [] \<and>
      server e (length (fetches w)) (account_request e s) = Fulfilled res1 \<and>
      server e (Suc (length (fetches w))) (account_request e s) = Fulfilled res2 \<and>
      ok res1 \<and> ok res2 \<and>
      payload res1 = Some (JsonObject g1) \<and> payload res2 = Some (JsonObject g2) \<and>
      or_null g1 = or_null g2"
    for s res1 res2 g1 g2
  proof -
    have tok1: "or_else tok (getCookie ''fe-chat-session'' (setIsLoading True w)) = Some s"
      using h by simp
    have srv1: "server e (length (fetches (setIsLoading True w))) (account_request e s)
                  = Fulfilled res1"
      using h by simp
    have "fst (fetchUser e tok (setIsLoading True w)) = Fulfilled (or_null g1)"
      using fetchUser_ok_object [OF tok1 _ srv1] h by simp
    then have a: "u = or_null g1"
      by (simp add: f1)
    have tok2: "or_else tok (getCookie ''fe-chat-session'' (setIsLoading True ?w1)) = Some s"
      using h same_cookie by (simp add: or_else_def)
    have "length (fetches ?w1) = Suc (length (fetches w))"
      using h by (simp add: count)
    then have srv2: "server e (length (fetches (setIsLoading True ?w1))) (account_request e s)
                  = Fulfilled res2"
      using h by simp
    have "fst (fetchUser e tok (setIsLoading True ?w1)) = Fulfilled (or_null g2)"
      using fetchUser_ok_object [OF tok2 _ srv2] h by simp
    then have b: "u' = or_null g1"
      using h by (simp add: f2)
    show ?thesis
      by (simp add: first second a b)
  qed
  show ?thesis
    using cookie same_answer both_ok by blast
qed

theorem refreshUser_twice_witness:
  "user (refreshUser (answering 200 (Some (JsonObject (UserValue alice)))) None
           (mounted [''fe-chat-session'' \<mapsto> ''abc''])) = Some alice \<and>
   user (refreshUser (answering 200 (Some (JsonObject (UserValue alice)))) None
           (refreshUser (answering 200 (Some (JsonObject (UserValue alice)))) None
              (mounted [''fe-chat-session'' \<mapsto> ''abc'']))) = Some alice \<and>
   user (refreshUser offline None (refreshUser offline None logged_in)) =
     user (refreshUser offline None logged_in)"
proof -
  let ?e = "answering 200 (Some (JsonObject (UserValue alice)))"
  let ?w = "mounted [''fe-chat-session'' \<mapsto> ''abc'']"
  let ?res = "\<lparr>status = 200, payload = Some (JsonObject (UserValue alice))\<rparr>"
  have h: "or_else None (getCookie ''fe-chat-session'' ?w) = Some ''abc'' \<and> ''abc'' \<noteq> [] \<and>
      server ?e (length (fetches ?w)) (account_request ?e ''abc'') = Fulfilled ?res \<and>
      server ?e (Suc (length (fetches ?w))) (account_request ?e ''abc'') = Fulfilled ?res \<and>
      ok ?res \<and> ok ?res \<and>
      payload ?res = Some (JsonObject (UserValue alice)) \<and>
      payload ?res = Some (JsonObject (UserValue alice)) \<and>
      or_null (UserValue alice) = or_null (UserValue alice)"
    by (simp add: or_else_def truthy_def getCookie_def mounted_def answering_def ok_def)
  have same: "server offline (Suc (length (fetches logged_in))) =
              server offline (length (fetches logged_in))"
    by (simp add: offline_def)
  have "user (refreshUser ?e None ?w) = or_null (UserValue alice) \<and>
        user (refreshUser ?e None (refreshUser ?e None ?w)) = or_null (UserValue alice)"
    using h refreshUser_twice [of ?e None ?w] by blast
  moreover have "user (refreshUser offline None (refreshUser offline None logged_in)) =
     user (refreshUser offline None logged_in)"
    using same refreshUser_twice [of offline None logged_in] by blast
  ultimately show ?thesis
    by (simp add: or_null_def)
qed

text \<open>
  C9. With no token in the cookie, \<^verbatim>\<open>logout\<close> calls \<^verbatim>\<open>fetch\<close> not at all and never
  reaches its \<^verbatim>\<open>catch\<close>: its effects are exactly \<^verbatim>\<open>setIsLoading(true)\<close>,
  \<^verbatim>\<open>setUser(null)\<close>, the cookie write with \<^verbatim>\<open>maxAge: -1\<close>, the navigation when a target
  was given, and \<^verbatim>\<open>setIsLoading(false)\<close>; no error is logged. It ends with
  \<^verbatim>\<open>user = null\<close>, no cookie and \<^verbatim>\<open>isLoading = false\<close>.
\<close>

theorem logout_without_token:
  assumes "getCookie ''fe-chat-session'' w = None \<or> getCookie ''fe-chat-session'' w = Some []"
  shows "events (logout e r w) =
           events w @
             [SetIsLoading True, SetUser None, SetCookie ''fe-chat-session'' [] (Some (- 1))] @
             (case r of None \<Rightarrow> [] | Some t \<Rightarrow> if t = [] then [] else [RouterReplace t]) @
             [SetIsLoading False] \<and>
         fetches (logout e r w) = fetches w \<and>
         user (logout e r w) = None \<and>
         getCookie ''fe-chat-session'' (logout e r w) = None \<and>
         isLoading (logout e r w) = False"
  using assms
  by (simp add: logout_no_token getCookie_def fetches_events_append List.map_filter_def
      split: option.splits)

theorem logout_without_token_witness:
  "events (logout offline (Some ''/bye'') (mounted Map.empty)) =
     [SetIsLoading True, SetUser None, SetCookie ''fe-chat-session'' [] (Some (- 1)),
      RouterReplace ''/bye'', SetIsLoading False] \<and>
   user (logout offline (Some ''/bye'') (mounted Map.empty)) = None \<and>
   getCookie ''fe-chat-session'' (logout offline (Some ''/bye'') (mounted Map.empty)) = None \<and>
   isLoading (logout offline (Some ''/bye'') (mounted Map.empty)) = False"
proof -
  have "getCookie ''fe-chat-session'' (mounted Map.empty) = None \<or>
        getCookie ''fe-chat-session'' (mounted Map.empty) = Some []"
    by (simp add: getCookie_def mounted_def)
  from logout_without_token [OF this, of offline "Some ''/bye''"] show ?thesis
    by (simp add: mounted_def)
qed

text \<open>
  C10. \<^verbatim>\<open>setUserFromSession("")\<close> writes the empty string to the cookie
  \<^verbatim>\<open>fe-chat-session\<close>; \<^verbatim>\<open>fetchUser\<close> takes the empty string for no token, so the
  operation ends with \<^verbatim>\<open>user = null\<close> and without a call of \<^verbatim>\<open>fetch\<close>.
\<close>

theorem setUserFromSession_empty_token:
  "getCookie ''fe-chat-session'' (setUserFromSession e [] w) = Some [] \<and>
   user (setUserFromSession e [] w) = None \<and>
   fetches (setUserFromSession e [] w) = fetches w \<and>
   isLoading (setUserFromSession e [] w) = False \<and>
   events (setUserFromSession e [] w) =
     events w @ [SetIsLoading True, SetCookie ''fe-chat-session'' [] None, SetUser None,
                 SetIsLoading False]"
proof -
  let ?w2 = "setCookie ''fe-chat-session'' [] None (setIsLoading True w)"
  have "or_else (Some []) (getCookie ''fe-chat-session'' ?w2) = None \<or>
        or_else (Some []) (getCookie ''fe-chat-session'' ?w2) = Some []"
    by (simp add: or_else_def truthy_def)
  then have f: "fetchUser e (Some []) ?w2 = (Fulfilled None, ?w2)"
    by (rule fetchUser_no_token)
  show ?thesis
    by (simp add: setUserFromSession_eq [OF f] prim_defs fetches_def List.map_filter_def)
qed

end
